theory Spec2Isabelle
  imports Complex_Main "HOL-Library.Multiset"
begin

section \<open>Catalogue data (types.ts, constants.ts)\<close>

text \<open>
  JavaScript numbers are modelled exactly: prices, ratios and costs are rationals, token
  counts are integers. The rounding of IEEE doubles is not part of this model. The
  properties of the cost calculator are therefore stated on the expressions as the source
  evaluates them, with the same operations in the same order, on halving and on signs
  that are decided with a margin; an identity that holds only because exact arithmetic
  cancels is not stated.
  An optional field (\<open>longContextInput?: number\<close>) is an \<open>option\<close>, with \<open>None\<close> for
  \<open>undefined\<close>.
\<close>

datatype tier = flagship | balanced | fast

text \<open>
  Several interfaces share the field names \<open>name\<close>, \<open>maxOutput\<close>, \<open>description\<close> and
  \<open>batchDiscount\<close>. The unqualified name is the field of the record declared last
  (\<open>ClaudeModel\<close>, \<open>CostCalculation\<close>); the others are written with their record's name,
  as in \<open>BetaHeader.name\<close>. The fields \<open>value\<close>, \<open>function\<close>, \<open>output\<close>, \<open>alias\<close> and
  \<open>section\<close> carry a prime, since the plain words are reserved.
\<close>

record ThinkingConfig =
  minBudget :: int
  recommendedStart :: int
  largeBudgetThreshold :: int
  maxWithInterleaved :: int
  rules :: "string list"

record BetaHeader =
  name :: string
  value' :: string
  purpose :: string
  requiredFor :: string
  models :: "string list option"

record ApiMode =
  name :: string
  function' :: string
  apiCall :: string
  betaHeaders :: "string list"
  maxOutput :: int
  thinkingBudgetRule :: string
  description :: string

record EffortLevel =
  name :: string
  description :: string
  tokenUsage :: string

record ModelPricing =
  input :: rat
  output' :: rat
  cacheWrite5min :: "rat option"
  cacheWrite1hr :: "rat option"
  cacheRead :: "rat option"
  longContextInput :: "rat option"
  longContextOutput :: "rat option"
  batchDiscount :: string

record ClaudeModel =
  name :: string
  apiId :: string
  alias' :: string
  tier :: tier
  releaseDate :: string
  knowledgeCutoff :: string
  contextWindow :: int
  contextWindowExtended :: "int option"
  maxOutput :: int
  pricing :: ModelPricing
  features :: "string list"

definition opus_4_5 :: ClaudeModel where
  "opus_4_5 = \<lparr>
    name = ''Claude Opus 4.5'',
    apiId = ''claude-opus-4-5-20251101'',
    alias' = ''claude-opus-4-5'',
    tier = flagship,
    releaseDate = ''2025-11-24'',
    knowledgeCutoff = ''March 2025'',
    contextWindow = 200000,
    contextWindowExtended = None,
    maxOutput = 64000,
    pricing = \<lparr>
      input = 5, output' = 25,
      cacheWrite5min = Some (625 / 100), cacheWrite1hr = Some 10, cacheRead = Some (1 / 2),
      longContextInput = None, longContextOutput = None,
      ModelPricing.batchDiscount = ''50%'' \<rparr>,
    features = [
      ''Extended thinking (preserved across turns by default)'',
      ''Effort parameter (low/medium/high)'',
      ''Computer use + zoom tool'',
      ''Context awareness'',
      ''Vision (images, PDFs, spreadsheets)'',
      ''Best-in-class coding (80.9% SWE-bench Verified)'',
      ''Memory tool for persistent state'',
      ''Context compaction''] \<rparr>"

definition sonnet_4_5 :: ClaudeModel where
  "sonnet_4_5 = \<lparr>
    name = ''Claude Sonnet 4.5'',
    apiId = ''claude-sonnet-4-5-20250929'',
    alias' = ''claude-sonnet-4-5'',
    tier = balanced,
    releaseDate = ''2025-09-29'',
    knowledgeCutoff = ''January 2025'',
    contextWindow = 200000,
    contextWindowExtended = Some 1000000,
    maxOutput = 64000,
    pricing = \<lparr>
      input = 3, output' = 15,
      cacheWrite5min = Some (375 / 100), cacheWrite1hr = Some 6, cacheRead = Some (3 / 10),
      longContextInput = Some 6, longContextOutput = Some (225 / 10),
      ModelPricing.batchDiscount = ''50%'' \<rparr>,
    features = [
      ''Extended thinking'',
      ''1M context window (beta, tier 4+)'',
      ''Computer use'',
      ''Context awareness'',
      ''Vision'',
      ''77.2% SWE-bench Verified'',
      ''Best balance of speed/cost/quality''] \<rparr>"

definition haiku_4_5 :: ClaudeModel where
  "haiku_4_5 = \<lparr>
    name = ''Claude Haiku 4.5'',
    apiId = ''claude-haiku-4-5-20251001'',
    alias' = ''claude-haiku-4-5'',
    tier = fast,
    releaseDate = ''2025-10-15'',
    knowledgeCutoff = ''February 2025'',
    contextWindow = 200000,
    contextWindowExtended = None,
    maxOutput = 64000,
    pricing = \<lparr>
      input = 1, output' = 5,
      cacheWrite5min = Some (125 / 100), cacheWrite1hr = Some 2, cacheRead = Some (1 / 10),
      longContextInput = None, longContextOutput = None,
      ModelPricing.batchDiscount = ''50%'' \<rparr>,
    features = [
      ''Extended thinking'',
      ''Computer use'',
      ''Context awareness'',
      ''Vision'',
      ''73.3% SWE-bench Verified'',
      ''4-5x faster than Sonnet 4.5'',
      ''Best for high-volume, latency-sensitive tasks''] \<rparr>"

text \<open>
  \<open>CLAUDE_MODELS\<close> is an object literal; its own properties, in insertion order (the order
  \<open>Object.entries\<close> walks them), are an association list.
\<close>

definition CLAUDE_MODELS :: "(string \<times> ClaudeModel) list" where
  "CLAUDE_MODELS =
     [(''opus_4_5'', opus_4_5), (''sonnet_4_5'', sonnet_4_5), (''haiku_4_5'', haiku_4_5)]"

definition THINKING_CONFIG :: ThinkingConfig where
  "THINKING_CONFIG = \<lparr>
    minBudget = 1024,
    recommendedStart = 16000,
    largeBudgetThreshold = 32000,
    maxWithInterleaved = 200000,
    rules = [
      ''budget_tokens must be at least 1,024'',
      ''Standard mode: budget_tokens must be LESS than max_tokens'',
      ''Interleaved mode with tools: budget_tokens can EXCEED max_tokens (uses full context window)'',
      ''Thinking tokens are billed as OUTPUT tokens'',
      ''Previous thinking blocks are auto-stripped from context (except Opus 4.5 which preserves them by default)'',
      ''For budgets above 32K, use batch processing to avoid networking issues'',
      ''Opus 4.5 preserves thinking blocks across turns for better multi-step reasoning''] \<rparr>"

definition BETA_HEADERS :: "BetaHeader list" where
  "BETA_HEADERS = [
    \<lparr> BetaHeader.name = ''Interleaved Thinking'',
      value' = ''interleaved-thinking-2025-05-14'',
      purpose = ''Enable thinking between tool calls'',
      requiredFor = ''Extended thinking WITH tools (uses beta.messages.create)'',
      models = None \<rparr>,
    \<lparr> BetaHeader.name = ''Context Management'',
      value' = ''context-management-2025-06-27'',
      purpose = ''Auto-compaction when approaching context limits'',
      requiredFor = ''Long-running agent sessions, automatic context management'',
      models = None \<rparr>,
    \<lparr> BetaHeader.name = ''Long Context (1M)'',
      value' = ''context-1m-2025-08-07'',
      purpose = ''Enable 1 million token context window'',
      requiredFor = ''Processing very large documents or codebases'',
      models = Some [''claude-sonnet-4-5-20250929'', ''claude-sonnet-4-20250514''] \<rparr>]"

definition API_MODES :: "ApiMode list" where
  "API_MODES = [
    \<lparr> ApiMode.name = ''Standard'',
      function' = ''chat()'',
      apiCall = ''anthropic.messages.create()'',
      betaHeaders = [],
      ApiMode.maxOutput = 64000,
      thinkingBudgetRule = ''N/A - no thinking'',
      ApiMode.description =
        ''Regular chat without extended thinking. Use for simple queries and conversations.'' \<rparr>,
    \<lparr> ApiMode.name = ''Extended Thinking'',
      function' = ''chatWithThinking()'',
      apiCall = ''anthropic.messages.create()'',
      betaHeaders = [],
      ApiMode.maxOutput = 64000,
      thinkingBudgetRule = ''budget_tokens < max_tokens'',
      ApiMode.description =
        ''Extended thinking WITHOUT tools. NO beta headers needed. Model reasons before responding.'' \<rparr>,
    \<lparr> ApiMode.name = ''Interleaved Thinking'',
      function' = ''chatWithInterleavedThinking()'',
      apiCall = ''anthropic.beta.messages.create()'',
      betaHeaders = [''interleaved-thinking-2025-05-14''],
      ApiMode.maxOutput = 64000,
      thinkingBudgetRule = ''budget_tokens can exceed max_tokens (uses full 200K context)'',
      ApiMode.description =
        ''Thinking BETWEEN tool calls. REQUIRES beta headers. Best for complex agentic workflows.'' \<rparr>]"

definition EFFORT_LEVELS :: "(string \<times> EffortLevel) list" where
  "EFFORT_LEVELS = [
    (''low'', \<lparr> EffortLevel.name = ''Low'',
      EffortLevel.description =
        ''Fast, minimal thinking. Good for simple tasks or high-volume automation.'',
      tokenUsage = ''Lowest'' \<rparr>),
    (''medium'', \<lparr> EffortLevel.name = ''Medium'',
      EffortLevel.description =
        ''Balanced. Matches Sonnet 4.5's peak performance while using 76% fewer output tokens than High.'',
      tokenUsage = ''Moderate'' \<rparr>),
    (''high'', \<lparr> EffortLevel.name = ''High'',
      EffortLevel.description =
        ''Default. Exhaustive reasoning. Best for complex problems requiring deep analysis.'',
      tokenUsage = ''Highest'' \<rparr>)]"

text \<open>\<open>PRICING_MULTIPLIERS\<close>: one constant for each field of the object.\<close>

definition PRICING_MULTIPLIERS_cacheWrite5min :: rat where
  "PRICING_MULTIPLIERS_cacheWrite5min = 125 / 100"

definition PRICING_MULTIPLIERS_cacheWrite1hr :: rat where
  "PRICING_MULTIPLIERS_cacheWrite1hr = 2"

definition PRICING_MULTIPLIERS_cacheRead :: rat where
  "PRICING_MULTIPLIERS_cacheRead = 1 / 10"

definition PRICING_MULTIPLIERS_batchDiscount :: rat where
  "PRICING_MULTIPLIERS_batchDiscount = 1 / 2"

definition PRICING_MULTIPLIERS_longContextInput :: rat where
  "PRICING_MULTIPLIERS_longContextInput = 2"

definition PRICING_MULTIPLIERS_longContextOutput :: rat where
  "PRICING_MULTIPLIERS_longContextOutput = 15 / 10"

section \<open>The cost computation of calculateCost\<close>

record CostBreakdown =
  inputCost :: rat
  outputCost :: rat

record CostCalculation =
  model :: string
  inputTokens :: int
  outputTokens :: int
  thinkingTokens :: int
  totalOutputTokens :: int
  baseCost :: rat
  cacheDiscount :: rat
  batchDiscount :: rat
  longContextPremium :: rat
  finalCost :: rat
  breakdown :: CostBreakdown

text \<open>
  \<open>longContext && model.pricing.longContextInput\<close> tests an optional number for
  truthiness: \<open>undefined\<close> and \<open>0\<close> are both falsy.
\<close>

definition truthy :: "rat option \<Rightarrow> bool" where
  "truthy p = (case p of None \<Rightarrow> False | Some v \<Rightarrow> v \<noteq> 0)"

definition selectPrice :: "bool \<Rightarrow> rat option \<Rightarrow> rat \<Rightarrow> rat" where
  "selectPrice long_context lc base =
     (case lc of None \<Rightarrow> base | Some v \<Rightarrow> if long_context \<and> truthy lc then v else base)"

text \<open>
  The body of \<open>calculateCost\<close> from the line after the lookup down to the \<open>result\<close>
  object, for a model \<open>m\<close> found in the catalogue. The two assignments to \<open>inputCost\<close>
  and to \<open>baseCost\<close> are separate names: \<open>originalInputCost\<close> and \<open>inputCost'\<close>,
  \<open>baseCost0\<close> and \<open>baseCost'\<close>.
\<close>

definition costCalculation ::
  "ClaudeModel \<Rightarrow> int \<Rightarrow> int \<Rightarrow> int \<Rightarrow> bool \<Rightarrow> rat \<Rightarrow> bool \<Rightarrow> bool \<Rightarrow> CostCalculation" where
  "costCalculation m input_tokens output_tokens thinking_tokens use_cache cache_hit_ratio
       use_batch long_context =
    (let total = output_tokens + thinking_tokens;
         inputPrice = selectPrice long_context (longContextInput (pricing m)) (input (pricing m));
         outputPrice = selectPrice long_context (longContextOutput (pricing m)) (output' (pricing m));
         originalInputCost = (of_int input_tokens / 1000000) * inputPrice;
         outputCost' = (of_int total / 1000000) * outputPrice;
         cacheHits = of_int input_tokens * cache_hit_ratio;
         cacheMisses = of_int input_tokens * (1 - cache_hit_ratio);
         cacheHitCost = (cacheHits / 1000000) * inputPrice * PRICING_MULTIPLIERS_cacheRead;
         cacheMissCost = (cacheMisses / 1000000) * inputPrice * PRICING_MULTIPLIERS_cacheWrite5min;
         inputCost' = (if use_cache then cacheHitCost + cacheMissCost else originalInputCost);
         cacheDiscount' = (if use_cache then originalInputCost - inputCost' else 0);
         baseCost0 = inputCost' + outputCost';
         batchDiscount' = (if use_batch then baseCost0 * (1 / 2) else 0);
         baseCost' = (if use_batch then baseCost0 * (1 / 2) else baseCost0)
     in \<lparr> model = name m,
          inputTokens = input_tokens,
          outputTokens = output_tokens,
          thinkingTokens = thinking_tokens,
          totalOutputTokens = total,
          baseCost = inputCost' + outputCost' + (if batchDiscount' > 0 then batchDiscount' else 0),
          cacheDiscount = cacheDiscount',
          batchDiscount = batchDiscount',
          longContextPremium =
            (if long_context
             then (inputPrice - input (pricing m)) * (of_int input_tokens / 1000000) else 0),
          finalCost = baseCost',
          breakdown = \<lparr> inputCost = inputCost', outputCost = outputCost' \<rparr> \<rparr>)"


section \<open>Values the operations return\<close>

text \<open>
  Every operation returns a string. A string built by \<open>JSON.stringify\<close> is kept as the
  value that was handed to it (\<open>Json v\<close>), so the layout of the JSON text is not part of
  the model; \<open>JUndefined\<close> is a value \<open>JSON.stringify\<close> has no text for (\<open>undefined\<close>,
  a function), and an object property with such a value is simply absent from the list.
  An uncaught exception is \<open>Inl TypeError\<close>.
\<close>

datatype jsonValue =
    JUndefined
  | JNumber rat
  | JString string
  | JArray "jsonValue list"
  | JObject "(string \<times> jsonValue) list"

datatype js_error = TypeError

datatype "output" = Text string | Json jsonValue

datatype format = markdown | json

text \<open>
  The number formatting of the host (\<open>Number.prototype.toLocaleString\<close>, \<open>toFixed\<close> and
  the conversion of a number inside a template literal) depends on the locale and on
  binary rounding; the operations take it as a parameter and every statement holds for
  any such formatting.
\<close>

record host =
  toLocaleString :: "rat \<Rightarrow> string"
  toFixed :: "rat \<Rightarrow> nat \<Rightarrow> string"
  numberToString :: "rat \<Rightarrow> string"

definition newline :: string where
  "newline = [CHR 0x0A]"

definition apostrophe :: string where
  "apostrophe = [CHR 0x27]"

definition backtick :: string where
  "backtick = [CHR 0x60]"

definition dquote :: string where
  "dquote = [CHR 0x22]"

fun join :: "string \<Rightarrow> string list \<Rightarrow> string" where
  "join sep [] = []"
| "join sep [x] = x"
| "join sep (x # y # ys) = x @ sep @ join sep (y # ys)"

section \<open>Catalogue lookup\<close>

text \<open>
  \<open>CLAUDE_MODELS[modelKey]\<close> reads a property of a plain object, so it walks the prototype
  chain: a key that is not an own property but names a member of \<open>Object.prototype\<close>
  yields that member (a function, or \<open>Object.prototype\<close> itself for \<open>__proto__\<close>), which is
  truthy and has none of the fields of a model. Of such a member only its \<open>name\<close>
  property is ever read with a defined result.
\<close>

datatype property =
    Model ClaudeModel
  | Function string
  | ObjectPrototype

definition Object_prototype_methods :: "string list" where
  "Object_prototype_methods =
     [''__defineGetter__'', ''__defineSetter__'', ''hasOwnProperty'', ''__lookupGetter__'',
      ''__lookupSetter__'', ''isPrototypeOf'', ''propertyIsEnumerable'', ''toString'',
      ''valueOf'', ''toLocaleString'']"

definition lookupModel :: "string \<Rightarrow> property option" where
  "lookupModel modelKey =
     (case map_of CLAUDE_MODELS modelKey of
        Some m \<Rightarrow> Some (Model m)
      | None \<Rightarrow>
          if modelKey = ''constructor'' then Some (Function ''Object'')
          else if modelKey = ''__proto__'' then Some ObjectPrototype
          else if modelKey \<in> set Object_prototype_methods then Some (Function modelKey)
          else None)"



section \<open>calculateCost\<close>

text \<open>
  \<open>calculateCost_result\<close> is the \<open>result\<close> object of \<open>calculateCost\<close>: it exists exactly when
  the lookup finds a catalogue entry.
\<close>

definition calculateCost_result ::
  "string \<Rightarrow> int \<Rightarrow> int \<Rightarrow> int \<Rightarrow> bool \<Rightarrow> rat \<Rightarrow> bool \<Rightarrow> bool \<Rightarrow> CostCalculation option" where
  "calculateCost_result modelKey input_tokens output_tokens thinking_tokens use_cache
       cache_hit_ratio use_batch long_context =
     (case lookupModel modelKey of
        Some (Model m) \<Rightarrow>
          Some (costCalculation m input_tokens output_tokens thinking_tokens use_cache
                  cache_hit_ratio use_batch long_context)
      | Some (Function n) \<Rightarrow> None
      | Some ObjectPrototype \<Rightarrow> None
      | None \<Rightarrow> None)"

definition CostCalculation_json :: "CostCalculation \<Rightarrow> jsonValue" where
  "CostCalculation_json r = JObject
     [(''model'', JString (model r)),
      (''inputTokens'', JNumber (of_int (inputTokens r))),
      (''outputTokens'', JNumber (of_int (outputTokens r))),
      (''thinkingTokens'', JNumber (of_int (thinkingTokens r))),
      (''totalOutputTokens'', JNumber (of_int (totalOutputTokens r))),
      (''baseCost'', JNumber (baseCost r)),
      (''cacheDiscount'', JNumber (cacheDiscount r)),
      (''batchDiscount'', JNumber (batchDiscount r)),
      (''longContextPremium'', JNumber (longContextPremium r)),
      (''finalCost'', JNumber (finalCost r)),
      (''breakdown'', JObject
         [(''inputCost'', JNumber (inputCost (breakdown r))),
          (''outputCost'', JNumber (outputCost (breakdown r)))])]"

definition CostCalculation_markdown :: "host \<Rightarrow> CostCalculation \<Rightarrow> string" where
  "CostCalculation_markdown hst r = concat
     [''# Cost Calculation: '', model r, newline, newline,
      ''## Tokens'', newline,
      ''- **Input:** '', toLocaleString hst (of_int (inputTokens r)), newline,
      ''- **Output:** '', toLocaleString hst (of_int (outputTokens r)), newline,
      ''- **Thinking:** '', toLocaleString hst (of_int (thinkingTokens r)), newline,
      ''- **Total Output (output + thinking):** '',
          toLocaleString hst (of_int (totalOutputTokens r)), newline, newline,
      ''## Cost Breakdown'', newline,
      ''- **Input Cost:** $'', toFixed hst (inputCost (breakdown r)) 6, newline,
      ''- **Output Cost:** $'', toFixed hst (outputCost (breakdown r)) 6, newline,
      (if cacheDiscount r > 0
       then ''- **Cache Savings:** -$'' @ toFixed hst (cacheDiscount r) 6 @ newline else []),
      (if batchDiscount r > 0
       then ''- **Batch Savings:** -$'' @ toFixed hst (batchDiscount r) 6 @ newline else []),
      (if longContextPremium r > 0
       then ''- **Long Context Premium:** +$'' @ toFixed hst (longContextPremium r) 6 @ newline
       else []),
      newline, ''## Final Cost: **$'', toFixed hst (finalCost r) 6, ''**'', newline]"

definition notFound :: "string \<Rightarrow> string" where
  "notFound modelKey = ''Error: Model '' @ apostrophe @ modelKey @ apostrophe @ '' not found.''"

text \<open>
  For an inherited member \<open>model.pricing\<close> is \<open>undefined\<close>, and reading
  \<open>model.pricing.input\<close> throws.
\<close>

definition calculateCost ::
  "host \<Rightarrow> string \<Rightarrow> int \<Rightarrow> int \<Rightarrow> int \<Rightarrow> bool \<Rightarrow> rat \<Rightarrow> bool \<Rightarrow> bool \<Rightarrow> format
     \<Rightarrow> js_error + output" where
  "calculateCost hst modelKey input_tokens output_tokens thinking_tokens use_cache
       cache_hit_ratio use_batch long_context fmt =
     (case lookupModel modelKey of
        None \<Rightarrow> Inr (Text (notFound modelKey))
      | Some (Function n) \<Rightarrow> Inl TypeError
      | Some ObjectPrototype \<Rightarrow> Inl TypeError
      | Some (Model m) \<Rightarrow>
          (let r = costCalculation m input_tokens output_tokens thinking_tokens use_cache
                     cache_hit_ratio use_batch long_context
           in case fmt of
                json \<Rightarrow> Inr (Json (CostCalculation_json r))
              | markdown \<Rightarrow> Inr (Text (CostCalculation_markdown hst r))))"


section \<open>Per-model lookups (getModelInfo, getPricing, getTokenLimits)\<close>



fun tierText :: "tier \<Rightarrow> string" where
  "tierText flagship = ''flagship''"
| "tierText balanced = ''balanced''"
| "tierText fast = ''fast''"


definition formatModelMarkdown :: "host \<Rightarrow> ClaudeModel \<Rightarrow> string" where
  "formatModelMarkdown hst m = concat
     [''## '', name m, newline,
      newline,
      ''**API ID:** '', backtick, apiId m, backtick, newline,
      ''**Alias:** '', backtick, alias' m, backtick, newline,
      ''**Tier:** '', tierText (tier m), newline,
      ''**Release Date:** '', releaseDate m, newline,
      ''**Knowledge Cutoff:** '', knowledgeCutoff m, newline,
      newline,
      ''### Token Limits'', newline,
      ''- **Context Window:** '', toLocaleString hst (of_int (contextWindow m)), '' tokens'', newline,
      (case contextWindowExtended m of
         None \<Rightarrow> []
       | Some e \<Rightarrow>
           if e \<noteq> 0
           then ''- **Extended Context (beta):** '' @ toLocaleString hst (of_int e) @ '' tokens''
           else []), newline,
      ''- **Max Output:** '', toLocaleString hst (of_int (maxOutput m)), '' tokens'', newline,
      newline,
      ''### Pricing (per million tokens)'', newline,
      ''- **Input:** $'', toFixed hst (input (pricing m)) 2, newline,
      ''- **Output:** $'', toFixed hst (output' (pricing m)) 2, newline,
      (case longContextInput (pricing m) of
         None \<Rightarrow> []
       | Some v \<Rightarrow>
           if v \<noteq> 0 then ''- **Long Context Input (>200K):** $'' @ toFixed hst v 2 else []),
      newline,
      (case longContextOutput (pricing m) of
         None \<Rightarrow> []
       | Some v \<Rightarrow>
           if v \<noteq> 0 then ''- **Long Context Output (>200K):** $'' @ toFixed hst v 2 else []),
      newline,
      ''- **Batch Discount:** '', ModelPricing.batchDiscount (pricing m), newline,
      newline,
      ''### Features'', newline,
      join newline (map (\<lambda>f. ''- '' @ f) (features m))]"






definition pricingRow :: "host \<Rightarrow> ClaudeModel \<Rightarrow> string" where
  "pricingRow hst m =
     ''| '' @ name m @ '' | $'' @ toFixed hst (input (pricing m)) 2
     @ '' | $'' @ toFixed hst (output' (pricing m)) 2
     @ '' | '' @ ModelPricing.batchDiscount (pricing m) @ '' |'' @ newline"

definition discountMultipliers :: "host \<Rightarrow> string" where
  "discountMultipliers hst = concat
     [newline, ''## Discount Multipliers'', newline, newline,
      ''- **Cache Write (5min):** '', numberToString hst PRICING_MULTIPLIERS_cacheWrite5min,
        ''x base input'', newline,
      ''- **Cache Write (1hr):** '', numberToString hst PRICING_MULTIPLIERS_cacheWrite1hr,
        ''x base input'', newline,
      ''- **Cache Read:** '', numberToString hst PRICING_MULTIPLIERS_cacheRead,
        ''x base input (90% savings)'', newline,
      ''- **Batch API:** '', numberToString hst PRICING_MULTIPLIERS_batchDiscount,
        ''x all tokens (50% savings)'', newline,
      ''- **Long Context Input (>200K):** '', numberToString hst PRICING_MULTIPLIERS_longContextInput,
        ''x input'', newline,
      ''- **Long Context Output (>200K):** '', numberToString hst PRICING_MULTIPLIERS_longContextOutput,
        ''x output'', newline]"

definition pricingMarkdown :: "host \<Rightarrow> ClaudeModel list \<Rightarrow> bool \<Rightarrow> string" where
  "pricingMarkdown hst ms includeDiscounts =
     ''# Claude 4.5 Pricing'' @ newline @ newline
     @ ''| Model | Input ($/MTok) | Output ($/MTok) | Batch Discount |'' @ newline
     @ ''|-------|----------------|-----------------|----------------|'' @ newline
     @ concat (map (pricingRow hst) ms)
     @ (if includeDiscounts then discountMultipliers hst else [])"







section \<open>Topic sections (getThinkingConfig, getBetaHeaders)\<close>

definition ThinkingConfig_json :: "ThinkingConfig \<Rightarrow> jsonValue" where
  "ThinkingConfig_json t = JObject
     [(''minBudget'', JNumber (of_int (minBudget t))),
      (''recommendedStart'', JNumber (of_int (recommendedStart t))),
      (''largeBudgetThreshold'', JNumber (of_int (largeBudgetThreshold t))),
      (''maxWithInterleaved'', JNumber (of_int (maxWithInterleaved t))),
      (''rules'', JArray (map JString (rules t)))]"

definition ApiMode_json :: "ApiMode \<Rightarrow> jsonValue" where
  "ApiMode_json a = JObject
     [(''name'', JString (ApiMode.name a)),
      (''function'', JString (function' a)),
      (''apiCall'', JString (apiCall a)),
      (''betaHeaders'', JArray (map JString (betaHeaders a))),
      (''maxOutput'', JNumber (of_int (ApiMode.maxOutput a))),
      (''thinkingBudgetRule'', JString (thinkingBudgetRule a)),
      (''description'', JString (ApiMode.description a))]"

definition EffortLevel_json :: "EffortLevel \<Rightarrow> jsonValue" where
  "EffortLevel_json e = JObject
     [(''name'', JString (EffortLevel.name e)),
      (''description'', JString (EffortLevel.description e)),
      (''tokenUsage'', JString (tokenUsage e))]"

definition apiModeRow :: "ApiMode \<Rightarrow> string" where
  "apiModeRow a =
     ''| '' @ ApiMode.name a @ '' | '' @ backtick @ apiCall a @ backtick @ '' | ''
     @ (if length (betaHeaders a) > 0 then join '', '' (betaHeaders a) else ''None'')
     @ '' | '' @ thinkingBudgetRule a @ '' |'' @ newline"

definition effortLevelMarkdown :: "EffortLevel \<Rightarrow> string" where
  "effortLevelMarkdown e =
     ''### '' @ EffortLevel.name e @ newline
     @ ''- **Token Usage:** '' @ tokenUsage e @ newline
     @ ''- **Description:** '' @ EffortLevel.description e @ newline @ newline"

definition getThinkingConfig_markdown :: "host \<Rightarrow> bool \<Rightarrow> bool \<Rightarrow> string" where
  "getThinkingConfig_markdown hst includeRules includeApiModes = concat
     [''# Extended Thinking Configuration'', newline, newline,
      ''## Budget Limits'', newline, newline,
      ''- **Minimum budget_tokens:** '',
        toLocaleString hst (of_int (minBudget THINKING_CONFIG)), newline,
      ''- **Recommended start:** '',
        toLocaleString hst (of_int (recommendedStart THINKING_CONFIG)), newline,
      ''- **Large budget threshold:** '',
        toLocaleString hst (of_int (largeBudgetThreshold THINKING_CONFIG)),
        '' (use batch processing)'', newline,
      ''- **Max with interleaved thinking:** '',
        toLocaleString hst (of_int (maxWithInterleaved THINKING_CONFIG)),
        '' (full context window)'', newline,
      (if includeRules
       then newline @ ''## Rules'' @ newline @ newline
            @ concat (map (\<lambda>rule. ''- '' @ rule @ newline) (rules THINKING_CONFIG))
       else []),
      (if includeApiModes
       then newline @ ''## API Modes'' @ newline @ newline
            @ ''| Mode | API Call | Beta Headers | Budget Rule |'' @ newline
            @ ''|------|----------|--------------|-------------|'' @ newline
            @ concat (map apiModeRow API_MODES)
       else []),
      newline, ''## Effort Levels (Opus 4.5 only)'', newline, newline,
      concat (map (\<lambda>(key, level). effortLevelMarkdown level) EFFORT_LEVELS)]"

definition getThinkingConfig :: "host \<Rightarrow> bool \<Rightarrow> bool \<Rightarrow> format \<Rightarrow> output" where
  "getThinkingConfig hst includeRules includeApiModes fmt =
     (case fmt of
        json \<Rightarrow>
          Json (JObject
            ([(''config'', ThinkingConfig_json THINKING_CONFIG)]
             @ (if includeApiModes then [(''apiModes'', JArray (map ApiMode_json API_MODES))]
                else [])
             @ [(''effortLevels'',
                 JObject (map (\<lambda>(key, level). (key, EffortLevel_json level)) EFFORT_LEVELS))]))
      | markdown \<Rightarrow> Text (getThinkingConfig_markdown hst includeRules includeApiModes))"

definition BetaHeader_json :: "BetaHeader \<Rightarrow> jsonValue" where
  "BetaHeader_json b = JObject
     ([(''name'', JString (BetaHeader.name b)),
       (''value'', JString (value' b)),
       (''purpose'', JString (purpose b)),
       (''requiredFor'', JString (requiredFor b))]
      @ (case models b of None \<Rightarrow> [] | Some ms \<Rightarrow> [(''models'', JArray (map JString ms))]))"

definition betaHeaderRow :: "BetaHeader \<Rightarrow> string" where
  "betaHeaderRow b =
     ''| '' @ BetaHeader.name b @ '' | '' @ backtick @ value' b @ backtick
     @ '' | '' @ purpose b @ '' | '' @ requiredFor b
     @ (case models b of None \<Rightarrow> [] | Some ms \<Rightarrow> '' ('' @ join '', '' ms @ '')'')
     @ '' |'' @ newline"

definition getBetaHeaders_markdown :: string where
  "getBetaHeaders_markdown = concat
     [''# Beta Headers'', newline, newline,
      ''| Name | Value | Purpose | Required For |'', newline,
      ''|------|-------|---------|---------------|'', newline,
      concat (map betaHeaderRow BETA_HEADERS),
      newline, ''## Usage Examples'', newline, newline,
      backtick, backtick, backtick, ''typescript'', newline,
      ''// Interleaved thinking with tools'', newline,
      ''const response = await anthropic.beta.messages.create({'', newline,
      ''  model: 'claude-sonnet-4-5-20250929','', newline,
      ''  betas: ['interleaved-thinking-2025-05-14'],'', newline,
      ''  thinking: { type: 'enabled', budget_tokens: 32000 },'', newline,
      ''  tools: [...],'', newline,
      ''  // ...'', newline,
      ''});'', newline, newline,
      ''// 1M context (Sonnet only)'', newline,
      ''const response = await anthropic.beta.messages.create({'', newline,
      ''  model: 'claude-sonnet-4-5-20250929','', newline,
      ''  betas: ['context-1m-2025-08-07'],'', newline,
      ''  // ...'', newline,
      ''});'', newline,
      backtick, backtick, backtick, newline]"

definition getBetaHeaders :: "format \<Rightarrow> output" where
  "getBetaHeaders fmt =
     (case fmt of
        json \<Rightarrow> Json (JArray (map BetaHeader_json BETA_HEADERS))
      | markdown \<Rightarrow> Text getBetaHeaders_markdown)"

section \<open>Relevance search (searchDocs)\<close>

text \<open>
  Strings are ASCII here: \<open>toLowerCase\<close> maps \<open>A\<close>..\<open>Z\<close> to \<open>a\<close>..\<open>z\<close> and leaves every
  other character alone. A query with a letter outside ASCII, which
  \<open>String.prototype.toLowerCase\<close> may lower to an ASCII letter (the Kelvin sign to \<open>k\<close>),
  is outside this model. \<open>includes' s q\<close> is \<open>s.includes(q)\<close>: \<open>q\<close> occurs in \<open>s\<close> as a
  contiguous substring.
\<close>

definition lowerChar :: "char \<Rightarrow> char" where
  "lowerChar c =
     (let n = (of_char c :: nat) in if 65 \<le> n \<and> n \<le> 90 then char_of (n + 32) else c)"

definition toLowerCase :: "string \<Rightarrow> string" where
  "toLowerCase s = map lowerChar s"

fun startsWith :: "string \<Rightarrow> string \<Rightarrow> bool" where
  "startsWith s [] = True"
| "startsWith [] (c # q) = False"
| "startsWith (a # s) (c # q) = (a = c \<and> startsWith s q)"

fun includes' :: "string \<Rightarrow> string \<Rightarrow> bool" where
  "includes' [] q = (q = [])"
| "includes' (a # s) q = (startsWith (a # s) q \<or> includes' s q)"

record SearchResult =
  section' :: string
  content :: string
  relevance :: rat

text \<open>
  The content of a result is a whole rendered section: \<open>formatModelMarkdown(model)\<close>,
  \<open>getThinkingConfig(true, true, "markdown")\<close>, \<open>getPricing("all", true, "markdown")\<close> (the
  pricing table of every catalogue entry) or \<open>getBetaHeaders("markdown")\<close>.
\<close>

definition modelMatch :: "host \<Rightarrow> string \<Rightarrow> ClaudeModel \<Rightarrow> SearchResult list" where
  "modelMatch hst lowerQuery m =
     (if includes' (toLowerCase (name m)) lowerQuery
         \<or> includes' (toLowerCase (apiId m)) lowerQuery
         \<or> list_ex (\<lambda>f. includes' (toLowerCase f) lowerQuery) (features m)
      then [\<lparr> section' = ''Models'',
              content = formatModelMarkdown hst m,
              relevance = (if includes' (toLowerCase (name m)) lowerQuery then 1 else 7 / 10) \<rparr>]
      else [])"

text \<open>The \<open>results\<close> array as the four searches push onto it, before it is sorted.\<close>

definition searchMatches :: "host \<Rightarrow> string \<Rightarrow> SearchResult list" where
  "searchMatches hst query =
     (let lowerQuery = toLowerCase query
      in concat (map (\<lambda>(key, m). modelMatch hst lowerQuery m) CLAUDE_MODELS)
         @ (if includes' lowerQuery ''think''
               \<or> includes' lowerQuery ''budget''
               \<or> includes' lowerQuery ''reasoning''
            then [\<lparr> section' = ''Extended Thinking'',
                    content = getThinkingConfig_markdown hst True True,
                    relevance = 9 / 10 \<rparr>]
            else [])
         @ (if includes' lowerQuery ''price''
               \<or> includes' lowerQuery ''cost''
               \<or> includes' lowerQuery ''token''
               \<or> includes' lowerQuery ''$''
            then [\<lparr> section' = ''Pricing'',
                    content = pricingMarkdown hst (map snd CLAUDE_MODELS) True,
                    relevance = 9 / 10 \<rparr>]
            else [])
         @ (if includes' lowerQuery ''beta''
               \<or> includes' lowerQuery ''header''
               \<or> includes' lowerQuery ''interleaved''
               \<or> includes' lowerQuery ''1m''
               \<or> includes' lowerQuery ''context''
            then [\<lparr> section' = ''Beta Headers'',
                    content = getBetaHeaders_markdown,
                    relevance = 8 / 10 \<rparr>]
            else []))"

text \<open>
  \<open>results.sort((a, b) => b.relevance - a.relevance)\<close>: \<open>Array.prototype.sort\<close> is a
  stable sort (ECMAScript 2019), and the comparator orders by descending relevance. The
  stable sort of the library by the negated relevance is that order.
\<close>

definition sortByRelevance :: "SearchResult list \<Rightarrow> SearchResult list" where
  "sortByRelevance rs = sort_key (\<lambda>r. - relevance r) rs"

definition searchResults :: "host \<Rightarrow> string \<Rightarrow> SearchResult list" where
  "searchResults hst query = sortByRelevance (searchMatches hst query)"

definition SearchResult_json :: "SearchResult \<Rightarrow> jsonValue" where
  "SearchResult_json r = JObject
     [(''section'', JString (section' r)),
      (''content'', JString (content r)),
      (''relevance'', JNumber (relevance r))]"

definition resultMarkdown :: "SearchResult \<Rightarrow> string" where
  "resultMarkdown r =
     ''---'' @ newline @ newline @ ''## '' @ section' r @ newline @ newline
     @ content r @ newline @ newline"

definition searchDocs :: "host \<Rightarrow> string \<Rightarrow> format \<Rightarrow> output" where
  "searchDocs hst query fmt =
     (let results = searchResults hst query
      in if length results = 0 then
           (case fmt of
              json \<Rightarrow>
                Json (JObject [(''query'', JString query), (''results'', JArray []),
                               (''message'', JString ''No results found'')])
            | markdown \<Rightarrow>
                Text (''No results found for: '' @ dquote @ query @ dquote @ newline @ newline
                      @ ''Try searching for: models, pricing, tokens, thinking, beta headers''))
         else
           (case fmt of
              json \<Rightarrow>
                Json (JObject [(''query'', JString query),
                               (''results'', JArray (map SearchResult_json results))])
            | markdown \<Rightarrow>
                Text (''# Search Results for: '' @ dquote @ query @ dquote @ newline @ newline
                      @ ''Found '' @ numberToString hst (of_nat (length results))
                      @ '' result(s)'' @ newline @ newline
                      @ concat (map resultMarkdown (take 3 results)))))"


section \<open>Facts about the catalogue\<close>

lemma lookupModel_entry:
  "map_of CLAUDE_MODELS k = Some m \<Longrightarrow> lookupModel k = Some (Model m)"
  by (simp add: lookupModel_def)

lemma calculateCost_result_entry:
  "map_of CLAUDE_MODELS k = Some m \<Longrightarrow>
   calculateCost_result k i out t c h b l = Some (costCalculation m i out t c h b l)"
  by (simp add: calculateCost_result_def lookupModel_entry)

text \<open>What \<open>calculateCost\<close> returns is a rendering of \<open>calculateCost_result\<close>.\<close>

lemma calculateCost_renders_result:
  assumes "calculateCost_result k i out t c h b l = Some r"
  shows "calculateCost hst k i out t c h b l json = Inr (Json (CostCalculation_json r))"
    and "calculateCost hst k i out t c h b l markdown = Inr (Text (CostCalculation_markdown hst r))"
  using assms
  by (auto simp: calculateCost_result_def calculateCost_def Let_def
        split: option.splits property.splits)

lemma calculateCost_entry:
  assumes "map_of CLAUDE_MODELS k = Some m"
  shows "calculateCost hst k i out t c h b l json
           = Inr (Json (CostCalculation_json (costCalculation m i out t c h b l)))"
    and "calculateCost hst k i out t c h b l markdown
           = Inr (Text (CostCalculation_markdown hst (costCalculation m i out t c h b l)))"
  by (simp_all add: calculateCost_def lookupModel_entry [OF assms])

lemma catalogue_cases:
  "map_of CLAUDE_MODELS k = Some m \<Longrightarrow> m = opus_4_5 \<or> m = sonnet_4_5 \<or> m = haiku_4_5"
  by (auto simp: CLAUDE_MODELS_def split: if_splits)

lemma catalogue_prices:
  assumes "map_of CLAUDE_MODELS k = Some m"
  shows "0 < input (pricing m)" and "0 < output' (pricing m)"
    and "longContextInput (pricing m) = Some v \<Longrightarrow> input (pricing m) < v"
    and "longContextOutput (pricing m) = Some w \<Longrightarrow> output' (pricing m) < w"
  using catalogue_cases [OF assms]
  by (auto simp: opus_4_5_def sonnet_4_5_def haiku_4_5_def)

lemma selectPrice_pos:
  assumes "map_of CLAUDE_MODELS k = Some m"
  shows "0 < selectPrice l (longContextInput (pricing m)) (input (pricing m))"
    and "0 < selectPrice l (longContextOutput (pricing m)) (output' (pricing m))"
  using catalogue_prices [OF assms]
  by (auto simp: selectPrice_def split: option.splits intro: less_trans)

lemma finalCost_eq:
  "finalCost (costCalculation m i out t c h b l) =
     (if b then 1 / 2 else 1) *
     ((if c then of_int i * h / 1000000
                   * selectPrice l (longContextInput (pricing m)) (input (pricing m))
                   * PRICING_MULTIPLIERS_cacheRead
                 + of_int i * (1 - h) / 1000000
                   * selectPrice l (longContextInput (pricing m)) (input (pricing m))
                   * PRICING_MULTIPLIERS_cacheWrite5min
       else of_int i / 1000000 * selectPrice l (longContextInput (pricing m)) (input (pricing m)))
      + of_int (out + t) / 1000000
        * selectPrice l (longContextOutput (pricing m)) (output' (pricing m)))"
  by (simp add: costCalculation_def Let_def)

lemmas costCalculation_simps = costCalculation_def Let_def
lemmas multipliers = PRICING_MULTIPLIERS_cacheRead_def PRICING_MULTIPLIERS_cacheWrite5min_def

lemma known_sonnet: "map_of CLAUDE_MODELS ''sonnet_4_5'' = Some sonnet_4_5"
  by (simp add: CLAUDE_MODELS_def)

lemma known_opus: "map_of CLAUDE_MODELS ''opus_4_5'' = Some opus_4_5"
  by (simp add: CLAUDE_MODELS_def)

lemma known_haiku: "map_of CLAUDE_MODELS ''haiku_4_5'' = Some haiku_4_5"
  by (simp add: CLAUDE_MODELS_def)


section \<open>Properties of the cost calculator\<close>

subsection \<open>C1: the accounting identity\<close>


text \<open>
  Under batch the reported base cost is the input cost plus the output cost plus the
  batch discount, where the two costs are the ones before the halving: three times the
  final cost.
\<close>

lemma baseCost_under_batch:
  assumes "0 < finalCost (costCalculation m i out t c h True l)"
  shows "baseCost (costCalculation m i out t c h True l)
           = 3 * finalCost (costCalculation m i out t c h True l)"
proof -
  define r where "r = costCalculation m i out t c h True l"
  define S where "S = inputCost (breakdown r) + outputCost (breakdown r)"
  have fin: "finalCost r = S * (1 / 2)"
    and base: "baseCost r = S + (if S * (1 / 2) > 0 then S * (1 / 2) else 0)"
    by (simp_all add: r_def S_def costCalculation_simps)
  from assms have "0 < finalCost r"
    by (simp only: r_def)
  then have "0 < S * (1 / 2)"
    by (simp only: fin)
  then have "baseCost r = 3 * finalCost r"
    by (simp add: fin base)
  then show ?thesis
    by (simp only: r_def)
qed



subsection \<open>C2: the cache discount\<close>

text \<open>
  A cache hit ratio of 1/10 is positive, and the reported cache discount is negative:
  nine tenths of the input is billed at the cache-write factor 1.25.
\<close>

theorem calculateCost_cacheDiscount_counterexample:
  "calculateCost_result ''sonnet_4_5'' 1000000 0 0 True (1 / 10) False False =
     Some \<lparr> model = ''Claude Sonnet 4.5'', inputTokens = 1000000, outputTokens = 0,
            thinkingTokens = 0, totalOutputTokens = 0, baseCost = 681 / 200,
            cacheDiscount = - (81 / 200),
            batchDiscount = 0, longContextPremium = 0, finalCost = 681 / 200,
            breakdown = \<lparr> inputCost = 681 / 200, outputCost = 0 \<rparr> \<rparr>
   \<and> (0 :: rat) < 1 / 10 \<and> - (81 / 200) < (0 :: rat)"
  by (simp add: calculateCost_result_entry [OF known_sonnet] costCalculation_simps
        selectPrice_def truthy_def sonnet_4_5_def multipliers)

lemma cacheDiscount_eq:
  "cacheDiscount (costCalculation m i out t True h b l) =
     of_int i / 1000000 * selectPrice l (longContextInput (pricing m)) (input (pricing m))
     * (115 / 100 * h - 25 / 100)"
proof -
  define x where "x = (of_int i :: rat)"
  define p where "p = selectPrice l (longContextInput (pricing m)) (input (pricing m))"
  have "cacheDiscount (costCalculation m i out t True h b l) =
          x / 1000000 * p
          - (x * h / 1000000 * p * (1 / 10) + x * (1 - h) / 1000000 * p * (125 / 100))"
    by (simp add: costCalculation_simps multipliers x_def p_def)
  also have "\<dots> = x / 1000000 * p * (115 / 100 * h - 25 / 100)"
    by (simp add: field_simps)
  finally show ?thesis
    by (simp add: x_def p_def)
qed


text \<open>
  C2, as the code has it: for every known model and every usage profile with a
  non-negative input token count and a hit ratio between 0 and 1, the cache discount
  that \<open>calculateCost\<close> reports is zero when \<open>use_cache\<close> is false; when \<open>use_cache\<close> is
  true it is the original input cost minus the input cost recomputed with the cache-read
  and the 5-minute cache-write multipliers (the input cost of the breakdown). It is
  non-negative whenever the hit ratio is at least 1/4, and negative whenever the hit
  ratio is at most 1/5 and there is at least one input token.
\<close>

theorem calculateCost_cacheDiscount:
  assumes "map_of CLAUDE_MODELS modelKey = Some m"
    and "0 \<le> i" and "0 \<le> h" and "h \<le> 1"
  shows "\<exists>r. calculateCost hst modelKey i out t c h b l json = Inr (Json (CostCalculation_json r))
           \<and> calculateCost hst modelKey i out t c h b l markdown
               = Inr (Text (CostCalculation_markdown hst r))
           \<and> (\<not> c \<longrightarrow> cacheDiscount r = 0)
           \<and> (c \<longrightarrow> cacheDiscount r =
                  of_int i / 1000000
                    * selectPrice l (longContextInput (pricing m)) (input (pricing m))
                  - inputCost (breakdown r)
                \<and> inputCost (breakdown r) =
                    of_int i * h / 1000000
                      * selectPrice l (longContextInput (pricing m)) (input (pricing m))
                      * PRICING_MULTIPLIERS_cacheRead
                    + of_int i * (1 - h) / 1000000
                      * selectPrice l (longContextInput (pricing m)) (input (pricing m))
                      * PRICING_MULTIPLIERS_cacheWrite5min)
           \<and> (c \<and> 1 / 4 \<le> h \<longrightarrow> 0 \<le> cacheDiscount r)
           \<and> (c \<and> h \<le> 1 / 5 \<and> 0 < i \<longrightarrow> cacheDiscount r < 0)"
proof -
  let ?p = "selectPrice l (longContextInput (pricing m)) (input (pricing m))"
  define r where "r = costCalculation m i out t c h b l"
  have p: "0 < ?p" by (rule selectPrice_pos [OF assms(1)])
  have off: "\<not> c \<longrightarrow> cacheDiscount r = 0"
    by (simp add: r_def costCalculation_simps)
  have on: "c \<longrightarrow> cacheDiscount r = of_int i / 1000000 * ?p - inputCost (breakdown r)
      \<and> inputCost (breakdown r) =
          of_int i * h / 1000000 * ?p * PRICING_MULTIPLIERS_cacheRead
          + of_int i * (1 - h) / 1000000 * ?p * PRICING_MULTIPLIERS_cacheWrite5min"
    by (simp add: r_def costCalculation_simps)
  have nonneg: "c \<and> 1 / 4 \<le> h \<longrightarrow> 0 \<le> cacheDiscount r"
  proof
    assume a: "c \<and> 1 / 4 \<le> h"
    then have "0 \<le> 115 / 100 * h - 25 / 100" by simp
    moreover have "0 \<le> of_int i / 1000000 * ?p" using p assms(2) by simp
    ultimately have "0 \<le> of_int i / 1000000 * ?p * (115 / 100 * h - 25 / 100)"
      by (rule mult_nonneg_nonneg [rotated])
    then show "0 \<le> cacheDiscount r"
      using a by (simp only: r_def cacheDiscount_eq)
  qed
  have neg: "c \<and> h \<le> 1 / 5 \<and> 0 < i \<longrightarrow> cacheDiscount r < 0"
  proof
    assume a: "c \<and> h \<le> 1 / 5 \<and> 0 < i"
    then have "115 / 100 * h - 25 / 100 < 0" by simp
    moreover have "0 < of_int i / 1000000 * ?p" using p a by simp
    ultimately have "of_int i / 1000000 * ?p * (115 / 100 * h - 25 / 100) < 0"
      by (rule mult_pos_neg [rotated])
    then show "cacheDiscount r < 0"
      using a by (simp only: r_def cacheDiscount_eq)
  qed
  show ?thesis
    using calculateCost_entry [OF assms(1), of hst i out t c h b l] off on nonneg neg
    unfolding r_def by blast
qed

theorem calculateCost_cacheDiscount_witness:
  "map_of CLAUDE_MODELS ''sonnet_4_5'' = Some sonnet_4_5 \<and> (0 :: int) \<le> 1000000
   \<and> (0 :: rat) \<le> 9 / 10 \<and> (9 :: rat) / 10 \<le> 1 \<and> (1 :: rat) / 4 \<le> 9 / 10
   \<and> (\<exists>r. calculateCost
            \<lparr> toLocaleString = (\<lambda>x. ''''), toFixed = (\<lambda>x n. ''''), numberToString = (\<lambda>x. '''') \<rparr>
            ''sonnet_4_5'' 1000000 0 0 True (9 / 10) False False json
            = Inr (Json (CostCalculation_json r))
          \<and> cacheDiscount r = 1000000 / 1000000 * 3 - inputCost (breakdown r)
          \<and> 0 \<le> cacheDiscount r)"
proof -
  let ?h = "\<lparr> toLocaleString = (\<lambda>x. ''''), toFixed = (\<lambda>x n. ''''), numberToString = (\<lambda>x. '''') \<rparr>"
  have sel: "selectPrice False (longContextInput (pricing sonnet_4_5)) (input (pricing sonnet_4_5)) = 3"
    by (simp add: selectPrice_def sonnet_4_5_def)
  have h: "(0 :: int) \<le> 1000000" "(0 :: rat) \<le> 9 / 10" "(9 :: rat) / 10 \<le> 1" "(1 :: rat) / 4 \<le> 9 / 10"
    by simp_all
  from calculateCost_cacheDiscount
         [OF known_sonnet h(1-3), of ?h 0 0 True False False]
  obtain r where j: "calculateCost ?h ''sonnet_4_5'' 1000000 0 0 True (9 / 10) False False json
                      = Inr (Json (CostCalculation_json r))"
    and d: "cacheDiscount r = of_int 1000000 / 1000000 * 3 - inputCost (breakdown r)"
    and n: "0 \<le> cacheDiscount r"
    using h(4) unfolding sel by blast
  from d have d': "cacheDiscount r = 1000000 / 1000000 * 3 - inputCost (breakdown r)"
    by simp
  show ?thesis
    using known_sonnet h j d' n by blast
qed

subsection \<open>C3: the plain case\<close>

text \<open>
  C3: for every known model, with no thinking tokens and with cache, batch and long
  context off, the final cost that \<open>calculateCost\<close> reports, in either format, is the
  input tokens per million at the base input price plus the output tokens per million at
  the base output price. For \<open>sonnet_4_5\<close> with 10000 input, 2000 output and 5000
  thinking tokens it reports 7000 total output tokens, the input cost 0.03, the output
  cost 0.105 and the final cost 0.135.
\<close>

theorem calculateCost_plain:
  assumes "map_of CLAUDE_MODELS modelKey = Some m"
  shows "(\<exists>r. calculateCost hst modelKey i out 0 False h False False json
                = Inr (Json (CostCalculation_json r))
            \<and> calculateCost hst modelKey i out 0 False h False False markdown
                = Inr (Text (CostCalculation_markdown hst r))
            \<and> finalCost r =
                of_int i / 1000000 * input (pricing m) + of_int out / 1000000 * output' (pricing m))
         \<and> (\<exists>r. calculateCost hst ''sonnet_4_5'' 10000 2000 5000 False h False False json
                   = Inr (Json (CostCalculation_json r))
               \<and> calculateCost hst ''sonnet_4_5'' 10000 2000 5000 False h False False markdown
                   = Inr (Text (CostCalculation_markdown hst r))
               \<and> totalOutputTokens r = 7000
               \<and> inputCost (breakdown r) = 3 / 100
               \<and> outputCost (breakdown r) = 105 / 1000
               \<and> finalCost r = 135 / 1000)"
proof
  have "finalCost (costCalculation m i out 0 False h False False) =
          of_int i / 1000000 * input (pricing m) + of_int out / 1000000 * output' (pricing m)"
    by (simp add: costCalculation_simps selectPrice_def split: option.split)
  then show "\<exists>r. calculateCost hst modelKey i out 0 False h False False json
                = Inr (Json (CostCalculation_json r))
            \<and> calculateCost hst modelKey i out 0 False h False False markdown
                = Inr (Text (CostCalculation_markdown hst r))
            \<and> finalCost r =
                of_int i / 1000000 * input (pricing m) + of_int out / 1000000 * output' (pricing m)"
    using calculateCost_entry [OF assms, of hst i out 0 False h False False] by blast
  define r where "r = costCalculation sonnet_4_5 10000 2000 5000 False h False False"
  have "totalOutputTokens r = 7000" "inputCost (breakdown r) = 3 / 100"
    "outputCost (breakdown r) = 105 / 1000" "finalCost r = 135 / 1000"
    by (simp_all add: r_def costCalculation_simps selectPrice_def sonnet_4_5_def)
  then show "\<exists>r. calculateCost hst ''sonnet_4_5'' 10000 2000 5000 False h False False json
                   = Inr (Json (CostCalculation_json r))
               \<and> calculateCost hst ''sonnet_4_5'' 10000 2000 5000 False h False False markdown
                   = Inr (Text (CostCalculation_markdown hst r))
               \<and> totalOutputTokens r = 7000
               \<and> inputCost (breakdown r) = 3 / 100
               \<and> outputCost (breakdown r) = 105 / 1000
               \<and> finalCost r = 135 / 1000"
    using calculateCost_entry [OF known_sonnet, of hst 10000 2000 5000 False h False False]
    unfolding r_def by blast
qed

theorem calculateCost_plain_witness:
  "map_of CLAUDE_MODELS ''haiku_4_5'' = Some haiku_4_5
   \<and> (\<exists>r. calculateCost
            \<lparr> toLocaleString = (\<lambda>x. ''''), toFixed = (\<lambda>x n. ''''), numberToString = (\<lambda>x. '''') \<rparr>
            ''haiku_4_5'' 2000000 1000000 0 False (9 / 10) False False json
            = Inr (Json (CostCalculation_json r))
          \<and> finalCost r = 7)"
proof -
  let ?h = "\<lparr> toLocaleString = (\<lambda>x. ''''), toFixed = (\<lambda>x n. ''''), numberToString = (\<lambda>x. '''') \<rparr>"
  from calculateCost_plain [OF known_haiku, of ?h 2000000 1000000 "9 / 10", THEN conjunct1]
  obtain r where j: "calculateCost ?h ''haiku_4_5'' 2000000 1000000 0 False (9 / 10) False False json
                      = Inr (Json (CostCalculation_json r))"
    and f: "finalCost r = of_int 2000000 / 1000000 * input (pricing haiku_4_5)
                          + of_int 1000000 / 1000000 * output' (pricing haiku_4_5)"
    by blast
  from f have "finalCost r = 7"
    by (simp add: haiku_4_5_def)
  then show ?thesis
    using known_haiku j by blast
qed

subsection \<open>C5: the batch discount\<close>



subsection \<open>C6: the long-context premium\<close>

text \<open>
  C6: for every known model and usage profile, the long-context premium that
  \<open>calculateCost\<close> reports is zero when \<open>long_context\<close> is false, and otherwise the
  selected input price minus the base input price, times the input tokens per million;
  it is strictly positive when \<open>long_context\<close> is true, the model defines long-context
  prices and there is at least one input token. The premium is informational: the final
  cost is the sum of the input and output cost of the breakdown (halved under batch),
  the input cost is the input tokens at the selected input price (with the cache
  multipliers when the cache is on) and the output cost is the output and thinking
  tokens at the selected output price, with no further term.
\<close>

theorem calculateCost_longContextPremium:
  assumes "map_of CLAUDE_MODELS modelKey = Some m"
  shows "\<exists>r. calculateCost hst modelKey i out t c h b l json = Inr (Json (CostCalculation_json r))
           \<and> calculateCost hst modelKey i out t c h b l markdown
               = Inr (Text (CostCalculation_markdown hst r))
           \<and> (\<not> l \<longrightarrow> longContextPremium r = 0)
           \<and> (l \<longrightarrow> longContextPremium r =
                  (selectPrice l (longContextInput (pricing m)) (input (pricing m))
                   - input (pricing m)) * (of_int i / 1000000))
           \<and> (l \<and> longContextInput (pricing m) \<noteq> None \<and> longContextOutput (pricing m) \<noteq> None
                \<and> 0 < i \<longrightarrow> 0 < longContextPremium r)
           \<and> finalCost r =
               (if b then 1 / 2 else 1) * (inputCost (breakdown r) + outputCost (breakdown r))
           \<and> inputCost (breakdown r) =
               (if c
                then of_int i * h / 1000000
                       * selectPrice l (longContextInput (pricing m)) (input (pricing m))
                       * PRICING_MULTIPLIERS_cacheRead
                     + of_int i * (1 - h) / 1000000
                       * selectPrice l (longContextInput (pricing m)) (input (pricing m))
                       * PRICING_MULTIPLIERS_cacheWrite5min
                else of_int i / 1000000
                       * selectPrice l (longContextInput (pricing m)) (input (pricing m)))
           \<and> outputCost (breakdown r) =
               of_int (out + t) / 1000000
               * selectPrice l (longContextOutput (pricing m)) (output' (pricing m))"
proof -
  define r where "r = costCalculation m i out t c h b l"
  define p where "p = selectPrice l (longContextInput (pricing m)) (input (pricing m))"
  have off: "\<not> l \<longrightarrow> longContextPremium r = 0"
    and on: "l \<longrightarrow> longContextPremium r = (p - input (pricing m)) * (of_int i / 1000000)"
    and fin: "finalCost r =
               (if b then 1 / 2 else 1) * (inputCost (breakdown r) + outputCost (breakdown r))"
    and inp: "inputCost (breakdown r) =
               (if c
                then of_int i * h / 1000000 * p * PRICING_MULTIPLIERS_cacheRead
                     + of_int i * (1 - h) / 1000000 * p * PRICING_MULTIPLIERS_cacheWrite5min
                else of_int i / 1000000 * p)"
    and outp: "outputCost (breakdown r) =
               of_int (out + t) / 1000000
               * selectPrice l (longContextOutput (pricing m)) (output' (pricing m))"
    by (simp_all add: r_def p_def costCalculation_simps)
  have pos: "l \<and> longContextInput (pricing m) \<noteq> None \<and> longContextOutput (pricing m) \<noteq> None
                \<and> 0 < i \<longrightarrow> 0 < longContextPremium r"
  proof
    assume a: "l \<and> longContextInput (pricing m) \<noteq> None \<and> longContextOutput (pricing m) \<noteq> None
                \<and> 0 < i"
    then obtain v where v: "longContextInput (pricing m) = Some v" by blast
    have lt: "input (pricing m) < v" by (rule catalogue_prices(3) [OF assms v])
    have "0 < input (pricing m)" by (rule catalogue_prices(1) [OF assms])
    with lt have "v \<noteq> 0" by simp
    then have "p = v" using a v by (simp add: p_def selectPrice_def truthy_def)
    then have "0 < p - input (pricing m)" using lt by simp
    moreover have "0 < (of_int i :: rat) / 1000000" using a by simp
    ultimately have "0 < (p - input (pricing m)) * (of_int i / 1000000)"
      by (rule mult_pos_pos)
    then show "0 < longContextPremium r" using on a by simp
  qed
  show ?thesis
    using calculateCost_entry [OF assms, of hst i out t c h b l] off on pos fin inp outp
    unfolding r_def p_def by blast
qed

theorem calculateCost_longContextPremium_witness:
  "map_of CLAUDE_MODELS ''sonnet_4_5'' = Some sonnet_4_5
   \<and> longContextInput (pricing sonnet_4_5) \<noteq> None \<and> longContextOutput (pricing sonnet_4_5) \<noteq> None
   \<and> (0 :: int) < 2000000
   \<and> (\<exists>r. calculateCost
            \<lparr> toLocaleString = (\<lambda>x. ''''), toFixed = (\<lambda>x n. ''''), numberToString = (\<lambda>x. '''') \<rparr>
            ''sonnet_4_5'' 2000000 0 0 False (9 / 10) False True json
            = Inr (Json (CostCalculation_json r))
          \<and> longContextPremium r = (6 - 3) * (2000000 / 1000000)
          \<and> 0 < longContextPremium r
          \<and> finalCost r = inputCost (breakdown r) + outputCost (breakdown r))"
proof -
  let ?h = "\<lparr> toLocaleString = (\<lambda>x. ''''), toFixed = (\<lambda>x n. ''''), numberToString = (\<lambda>x. '''') \<rparr>"
  have d: "longContextInput (pricing sonnet_4_5) \<noteq> None"
    "longContextOutput (pricing sonnet_4_5) \<noteq> None"
    by (simp_all add: sonnet_4_5_def)
  have i: "(0 :: int) < 2000000" by simp
  from calculateCost_longContextPremium
         [OF known_sonnet, of ?h 2000000 0 0 False "9 / 10" False True]
  obtain r where j: "calculateCost ?h ''sonnet_4_5'' 2000000 0 0 False (9 / 10) False True json
                      = Inr (Json (CostCalculation_json r))"
    and e: "longContextPremium r =
              (selectPrice True (longContextInput (pricing sonnet_4_5)) (input (pricing sonnet_4_5))
               - input (pricing sonnet_4_5)) * (of_int 2000000 / 1000000)"
    and pos: "0 < longContextPremium r"
    and fin: "finalCost r = (if False then 1 / 2 else 1)
                * (inputCost (breakdown r) + outputCost (breakdown r))"
    using d i by blast
  from e have e': "longContextPremium r = (6 - 3) * (2000000 / 1000000)"
    by (simp add: selectPrice_def truthy_def sonnet_4_5_def)
  from fin have fin': "finalCost r = inputCost (breakdown r) + outputCost (breakdown r)" by simp
  show ?thesis
    using known_sonnet d i j e' pos fin' by blast
qed

subsection \<open>C7: the final cost is never negative\<close>

text \<open>
  C7: for every known model and every usage profile with non-negative token counts and
  a cache hit ratio between 0 and 1, the final cost is at least 0, whatever the cache,
  batch and long-context flags.
\<close>

theorem calculateCost_nonneg:
  assumes "map_of CLAUDE_MODELS modelKey = Some m"
    and "0 \<le> i" and "0 \<le> out" and "0 \<le> t" and "0 \<le> h" and "h \<le> 1"
  shows "\<exists>r. calculateCost_result modelKey i out t c h b l = Some r \<and> 0 \<le> finalCost r"
  unfolding calculateCost_result_entry [OF assms(1)]
  using selectPrice_pos [OF assms(1), of l] assms(2-)
  by (simp add: finalCost_eq multipliers)

theorem calculateCost_nonneg_witness:
  "map_of CLAUDE_MODELS ''sonnet_4_5'' = Some sonnet_4_5
   \<and> (0 :: int) \<le> 300000 \<and> (0 :: int) \<le> 4000 \<and> (0 :: int) \<le> 1000
   \<and> (0 :: rat) \<le> 1 / 2 \<and> (1 :: rat) / 2 \<le> 1
   \<and> (\<exists>r. calculateCost_result ''sonnet_4_5'' 300000 4000 1000 True (1 / 2) True True = Some r
          \<and> 0 \<le> finalCost r)"
  using calculateCost_nonneg [OF known_sonnet, of 300000 4000 1000 "1 / 2" True True True]
  by (simp add: known_sonnet)

subsection \<open>C10: models without long-context prices\<close>

lemma costCalculation_no_longContext_prices:
  assumes "longContextInput (pricing m) = None" and "longContextOutput (pricing m) = None"
  shows "costCalculation m i out t c h b True = costCalculation m i out t c h b False"
  by (simp add: costCalculation_simps selectPrice_def assms)

text \<open>
  C10: for every model of the catalogue whose pricing defines neither a long-context
  input price nor a long-context output price (\<open>opus_4_5\<close> and \<open>haiku_4_5\<close>), and every
  usage profile, \<open>calculateCost\<close> with \<open>long_context = true\<close> returns what it returns
  with \<open>long_context = false\<close>: the selected prices stay the base prices and the reported
  premium is 0.
\<close>

theorem calculateCost_no_longContext_prices:
  assumes "map_of CLAUDE_MODELS modelKey = Some m"
    and "longContextInput (pricing m) = None" and "longContextOutput (pricing m) = None"
  shows "calculateCost hst modelKey i out t c h b True fmt
           = calculateCost hst modelKey i out t c h b False fmt
         \<and> selectPrice True (longContextInput (pricing m)) (input (pricing m)) = input (pricing m)
         \<and> selectPrice True (longContextOutput (pricing m)) (output' (pricing m))
             = output' (pricing m)
         \<and> (\<exists>r. calculateCost_result modelKey i out t c h b True = Some r
                \<and> calculateCost_result modelKey i out t c h b False = Some r
                \<and> longContextPremium r = 0)"
proof -
  have eq: "costCalculation m i out t c h b True = costCalculation m i out t c h b False"
    by (rule costCalculation_no_longContext_prices [OF assms(2,3)])
  have prem: "longContextPremium (costCalculation m i out t c h b False) = 0"
    by (simp add: costCalculation_simps)
  have "calculateCost hst modelKey i out t c h b True fmt
          = calculateCost hst modelKey i out t c h b False fmt"
    by (simp add: calculateCost_def lookupModel_entry [OF assms(1)] eq)
  moreover have "selectPrice True (longContextInput (pricing m)) (input (pricing m))
                   = input (pricing m)"
    and "selectPrice True (longContextOutput (pricing m)) (output' (pricing m))
           = output' (pricing m)"
    by (simp_all add: selectPrice_def assms(2,3))
  ultimately show ?thesis
    unfolding calculateCost_result_entry [OF assms(1)]
    by (simp add: eq prem)
qed

theorem calculateCost_no_longContext_prices_witness:
  "map_of CLAUDE_MODELS ''opus_4_5'' = Some opus_4_5
   \<and> longContextInput (pricing opus_4_5) = None \<and> longContextOutput (pricing opus_4_5) = None
   \<and> map_of CLAUDE_MODELS ''haiku_4_5'' = Some haiku_4_5
   \<and> longContextInput (pricing haiku_4_5) = None \<and> longContextOutput (pricing haiku_4_5) = None
   \<and> (\<exists>r. calculateCost_result ''opus_4_5'' 300000 2000 0 True (9 / 10) True True = Some r
          \<and> calculateCost_result ''opus_4_5'' 300000 2000 0 True (9 / 10) True False = Some r
          \<and> longContextPremium r = 0)
   \<and> (\<exists>r. calculateCost_result ''haiku_4_5'' 300000 2000 0 True (9 / 10) True True = Some r
          \<and> calculateCost_result ''haiku_4_5'' 300000 2000 0 True (9 / 10) True False = Some r
          \<and> longContextPremium r = 0)"
proof -
  let ?h = "\<lparr> toLocaleString = (\<lambda>x. ''''), toFixed = (\<lambda>x n. ''''), numberToString = (\<lambda>x. '''') \<rparr>"
  have o: "longContextInput (pricing opus_4_5) = None" "longContextOutput (pricing opus_4_5) = None"
    by (simp_all add: opus_4_5_def)
  have k: "longContextInput (pricing haiku_4_5) = None" "longContextOutput (pricing haiku_4_5) = None"
    by (simp_all add: haiku_4_5_def)
  show ?thesis
    using calculateCost_no_longContext_prices
            [OF known_opus o, of ?h 300000 2000 0 True "9 / 10" True markdown]
          calculateCost_no_longContext_prices
            [OF known_haiku k, of ?h 300000 2000 0 True "9 / 10" True json]
    by (simp add: known_opus known_haiku o k)
qed

section \<open>Properties of the per-model lookups\<close>













section \<open>Properties of the search\<close>

lemma searchMatches_pricing: "searchMatches hst ''pricing'' = []"
  by code_simp

lemma searchMatches_zz: "searchMatches hst ''zz'' = []"
  by code_simp

lemma searchDocs_no_results:
  assumes "searchMatches hst q = []"
  shows "searchDocs hst q markdown =
           Text (''No results found for: '' @ dquote @ q @ dquote @ newline @ newline
                 @ ''Try searching for: models, pricing, tokens, thinking, beta headers'')"
    and "searchDocs hst q json =
           Json (JObject [(''query'', JString q), (''results'', JArray []),
                          (''message'', JString ''No results found'')])"
  by (simp_all add: searchDocs_def searchResults_def sortByRelevance_def assms)

text \<open>
  C8 at the query \<open>pricing\<close>: the search returns no result at all, in either format. The
  pricing topic is found through the substrings \<open>price\<close>, \<open>cost\<close>, \<open>token\<close> and \<open>$\<close>, and
  \<open>pricing\<close> contains none of them, although the no-results message itself suggests the
  search term \<open>pricing\<close>.
\<close>

theorem searchDocs_pricing:
  "searchResults hst ''pricing'' = []
   \<and> searchDocs hst ''pricing'' markdown =
       Text (''No results found for: '' @ dquote @ ''pricing'' @ dquote @ newline @ newline
             @ ''Try searching for: models, pricing, tokens, thinking, beta headers'')
   \<and> searchDocs hst ''pricing'' json =
       Json (JObject [(''query'', JString ''pricing''), (''results'', JArray []),
                      (''message'', JString ''No results found'')])"
  using searchDocs_no_results [OF searchMatches_pricing, of hst]
  by (simp add: searchResults_def sortByRelevance_def searchMatches_pricing)

text \<open>
  The rest of C8 holds: the query \<open>zz\<close> matches nothing and gives the no-results answer in
  both formats, and the query \<open>price\<close> finds the pricing section with relevance 0.9.
\<close>

lemma searchDocs_zz:
  "searchResults hst ''zz'' = []
   \<and> searchDocs hst ''zz'' markdown =
       Text (''No results found for: '' @ dquote @ ''zz'' @ dquote @ newline @ newline
             @ ''Try searching for: models, pricing, tokens, thinking, beta headers'')
   \<and> searchDocs hst ''zz'' json =
       Json (JObject [(''query'', JString ''zz''), (''results'', JArray []),
                      (''message'', JString ''No results found'')])"
  using searchDocs_no_results [OF searchMatches_zz, of hst]
  by (simp add: searchResults_def sortByRelevance_def searchMatches_zz)

lemma searchResults_price:
  "searchResults hst ''price'' =
     [\<lparr> section' = ''Pricing'', content = pricingMarkdown hst (map snd CLAUDE_MODELS) True,
        relevance = 9 / 10 \<rparr>]"
  by code_simp

lemma modelMatch_relevance:
  "r \<in> set (modelMatch hst lq m) \<Longrightarrow> relevance r = 1 \<or> relevance r = 7 / 10"
  by (auto simp: modelMatch_def split: if_splits)

lemma searchMatches_relevance:
  assumes "r \<in> set (searchMatches hst q)"
  shows "relevance r \<in> {1, 7 / 10, 9 / 10, 8 / 10}"
  using assms
  by (auto simp: searchMatches_def Let_def split: if_splits dest: modelMatch_relevance)

lemma searchResults_set: "set (searchResults hst q) = set (searchMatches hst q)"
  by (simp add: searchResults_def sortByRelevance_def)

lemma searchResults_sorted:
  "sorted_wrt (\<lambda>a b. relevance b \<le> relevance a) (searchResults hst q)"
proof -
  have "sorted (map (\<lambda>r. - relevance r) (searchResults hst q))"
    by (simp add: searchResults_def sortByRelevance_def)
  then show ?thesis
    by (simp add: sorted_wrt_map)
qed

lemma searchResults_stable:
  "filter (\<lambda>r. relevance r = v) (searchResults hst q)
     = filter (\<lambda>r. relevance r = v) (searchMatches hst q)"
proof -
  have "filter (\<lambda>r. - relevance r = - v) (sort_key (\<lambda>r. - relevance r) (searchMatches hst q))
          = filter (\<lambda>r. - relevance r = - v) (searchMatches hst q)"
    by (rule sort_key_stable)
  then show ?thesis
    by (simp add: searchResults_def sortByRelevance_def)
qed

text \<open>
  C9: for every query, the result list is sorted by descending relevance; results of
  equal relevance keep the order in which the searches found them (catalogue order, then
  the topic groups); the sorted list holds exactly the matches; every relevance is
  greater than 0 and at most 1; the markdown text renders the first three results at
  most, and the JSON document carries all of them.
\<close>

theorem searchDocs_ranking:
  "sorted_wrt (\<lambda>a b. relevance b \<le> relevance a) (searchResults hst q)
   \<and> (\<forall>v. filter (\<lambda>r. relevance r = v) (searchResults hst q)
            = filter (\<lambda>r. relevance r = v) (searchMatches hst q))
   \<and> mset (searchResults hst q) = mset (searchMatches hst q)
   \<and> list_all (\<lambda>r. 0 < relevance r \<and> relevance r \<le> 1) (searchResults hst q)
   \<and> searchDocs hst q markdown =
       (if searchResults hst q = []
        then Text (''No results found for: '' @ dquote @ q @ dquote @ newline @ newline
                   @ ''Try searching for: models, pricing, tokens, thinking, beta headers'')
        else Text (''# Search Results for: '' @ dquote @ q @ dquote @ newline @ newline
                   @ ''Found '' @ numberToString hst (of_nat (length (searchResults hst q)))
                   @ '' result(s)'' @ newline @ newline
                   @ concat (map resultMarkdown (take 3 (searchResults hst q)))))
   \<and> length (take 3 (searchResults hst q)) \<le> 3
   \<and> searchDocs hst q json =
       (if searchResults hst q = []
        then Json (JObject [(''query'', JString q), (''results'', JArray []),
                            (''message'', JString ''No results found'')])
        else Json (JObject [(''query'', JString q),
                            (''results'', JArray (map SearchResult_json (searchResults hst q)))]))"
proof -
  have range: "list_all (\<lambda>r. 0 < relevance r \<and> relevance r \<le> 1) (searchResults hst q)"
    unfolding list_all_iff searchResults_set
    using searchMatches_relevance [of _ hst q] by fastforce
  have ms: "mset (searchResults hst q) = mset (searchMatches hst q)"
    by (simp add: searchResults_def sortByRelevance_def)
  have md: "searchDocs hst q markdown =
       (if searchResults hst q = []
        then Text (''No results found for: '' @ dquote @ q @ dquote @ newline @ newline
                   @ ''Try searching for: models, pricing, tokens, thinking, beta headers'')
        else Text (''# Search Results for: '' @ dquote @ q @ dquote @ newline @ newline
                   @ ''Found '' @ numberToString hst (of_nat (length (searchResults hst q)))
                   @ '' result(s)'' @ newline @ newline
                   @ concat (map resultMarkdown (take 3 (searchResults hst q)))))"
    by (simp add: searchDocs_def Let_def)
  have js: "searchDocs hst q json =
       (if searchResults hst q = []
        then Json (JObject [(''query'', JString q), (''results'', JArray []),
                            (''message'', JString ''No results found'')])
        else Json (JObject [(''query'', JString q),
                            (''results'', JArray (map SearchResult_json (searchResults hst q)))]))"
    by (simp add: searchDocs_def Let_def)
  show ?thesis
    using searchResults_sorted [of hst q] searchResults_stable [of _ hst q] ms range md js
    by simp
qed

lemma searchMatches_context:
  "map (\<lambda>r. (section' r, relevance r)) (searchMatches hst ''context'')
     = [(''Models'', 7 / 10), (''Models'', 7 / 10), (''Models'', 7 / 10), (''Beta Headers'', 8 / 10)]"
  by code_simp

lemma searchResults_context:
  "map (\<lambda>r. (section' r, relevance r)) (searchResults hst ''context'')
     = [(''Beta Headers'', 8 / 10), (''Models'', 7 / 10), (''Models'', 7 / 10), (''Models'', 7 / 10)]"
  by code_simp

theorem searchDocs_ranking_witness:
  "map (\<lambda>r. (section' r, relevance r))
     (searchResults
        \<lparr> toLocaleString = (\<lambda>x. ''''), toFixed = (\<lambda>x n. ''''), numberToString = (\<lambda>x. '''') \<rparr>
        ''context'')
     = [(''Beta Headers'', 8 / 10), (''Models'', 7 / 10), (''Models'', 7 / 10), (''Models'', 7 / 10)]
   \<and> sorted_wrt (\<lambda>a b. relevance b \<le> relevance a)
       (searchResults
          \<lparr> toLocaleString = (\<lambda>x. ''''), toFixed = (\<lambda>x n. ''''), numberToString = (\<lambda>x. '''') \<rparr>
          ''context'')
   \<and> filter (\<lambda>r. relevance r = 7 / 10)
       (searchResults
          \<lparr> toLocaleString = (\<lambda>x. ''''), toFixed = (\<lambda>x n. ''''), numberToString = (\<lambda>x. '''') \<rparr>
          ''context'')
     = filter (\<lambda>r. relevance r = 7 / 10)
       (searchMatches
          \<lparr> toLocaleString = (\<lambda>x. ''''), toFixed = (\<lambda>x n. ''''), numberToString = (\<lambda>x. '''') \<rparr>
          ''context'')
   \<and> length (take 3
       (searchResults
          \<lparr> toLocaleString = (\<lambda>x. ''''), toFixed = (\<lambda>x n. ''''), numberToString = (\<lambda>x. '''') \<rparr>
          ''context'')) = 3"
proof -
  let ?h = "\<lparr> toLocaleString = (\<lambda>x. ''''), toFixed = (\<lambda>x n. ''''), numberToString = (\<lambda>x. '''') \<rparr>"
  have e: "map (\<lambda>r. (section' r, relevance r)) (searchResults ?h ''context'')
     = [(''Beta Headers'', 8 / 10), (''Models'', 7 / 10), (''Models'', 7 / 10), (''Models'', 7 / 10)]"
    by (rule searchResults_context)
  then have "length (map (\<lambda>r. (section' r, relevance r)) (searchResults ?h ''context'')) = 4"
    by simp
  then have len: "length (searchResults ?h ''context'') = 4"
    by simp
  note ranking = searchDocs_ranking [of ?h "''context''"]
  have s: "sorted_wrt (\<lambda>a b. relevance b \<le> relevance a) (searchResults ?h ''context'')"
    by (rule ranking [THEN conjunct1])
  have "\<forall>v. filter (\<lambda>r. relevance r = v) (searchResults ?h ''context'')
            = filter (\<lambda>r. relevance r = v) (searchMatches ?h ''context'')"
    by (rule ranking [THEN conjunct2, THEN conjunct1])
  then have st: "filter (\<lambda>r. relevance r = 7 / 10) (searchResults ?h ''context'')
            = filter (\<lambda>r. relevance r = 7 / 10) (searchMatches ?h ''context'')"
    by (rule spec)
  have t3: "length (take 3 (searchResults ?h ''context'')) = 3"
    by (simp add: len)
  show ?thesis
    by (intro conjI) (rule e s st t3)+
qed

end
